theory Spec2Isabelle
  imports Main
begin

section \<open>The CSS parsing entry points of LibWeb (CSS/Parser/Helpers.cpp)\<close>

text \<open>
  The file embeds \<^verbatim>\<open>Libraries/LibWeb/CSS/Parser/Helpers.cpp\<close>. A \<^verbatim>\<open>StringView\<close> and
  a \<^verbatim>\<open>String\<close> are byte sequences, here \<^typ>\<open>string\<close> (a \<^typ>\<open>char\<close> is one byte).
\<close>

subsection \<open>Filename sanitization\<close>

text \<open>
  \<^verbatim>\<open>sanitize_filename\<close> (lines 47 to 59) walks the bytes of the view and appends
  \<^verbatim>\<open>'_'\<close> for each of the nine characters that cannot appear in a filename, the byte itself
  otherwise. The backslash is byte 0x5C and the double quote byte 0x22.

  \<^verbatim>\<open>MUST(sanitized.to_string())\<close> aborts only when the built bytes are not UTF-8. The one
  caller passes the bytes of a \<^verbatim>\<open>String\<close>, which are UTF-8 by that type's invariant, and
  the loop replaces ASCII bytes by an ASCII byte, so the conversion is taken as the
  identity on the built bytes. Running out of memory is not modelled.
\<close>

fun sanitize_filename :: "string \<Rightarrow> string" where
  "sanitize_filename [] = []"
| "sanitize_filename (ch # url_string) =
     (if ch = CHR ''/'' \<or> ch = CHR 0x5C \<or> ch = CHR '':'' \<or> ch = CHR ''*'' \<or> ch = CHR ''?''
         \<or> ch = CHR 0x22 \<or> ch = CHR ''<'' \<or> ch = CHR ''>'' \<or> ch = CHR ''|''
      then CHR ''_'' # sanitize_filename url_string
      else ch # sanitize_filename url_string)"

subsection \<open>Values owned by the collaborators\<close>

text \<open>
  The classes below are declared outside \<^verbatim>\<open>Helpers.cpp\<close>. A garbage-collected object
  is represented by its identity, and a value this code only passes on by a number that
  stands for it. A location is a \<^verbatim>\<open>URL\<close>; the code reads it through
  \<^verbatim>\<open>to_string\<close> only, so it is represented by that string.
\<close>

datatype realm = Realm nat

datatype url = URL string

fun to_string :: "url \<Rightarrow> string" where
  "to_string (URL s) = s"

datatype style_property = StyleProperty nat
datatype descriptor = Descriptor nat
datatype style_value = CSSStyleValue nat
datatype css_rule = CSSRule nat
datatype selector_list = SelectorList nat
datatype page_selector_list = PageSelectorList nat
datatype pseudo_element_selector = PseudoElementSelector nat
datatype media_query = MediaQuery nat
datatype supports = Supports nat
datatype property_id = PropertyID nat
datatype at_rule_id = AtRuleID nat
datatype descriptor_id = DescriptorID nat

datatype selector_parsing_mode = Standard | Forgiving

text \<open>
  Modelled from the spec: \<^verbatim>\<open>ParsingParams\<close> is declared outside \<^verbatim>\<open>Helpers.cpp\<close>;
  the specification describes it as a bundle with a reference to the realm. The code
  reads \<^verbatim>\<open>context.realm\<close> and hands the whole value to the parser; \<open>params_rest\<close>
  stands for the fields it never looks at.
\<close>

record parsing_params =
  realm :: realm
  params_rest :: nat

datatype css_rule_list = CSSRuleList realm "css_rule list"

datatype media_list = MediaList realm "media_query list"

text \<open>
  Modelled from the spec: \<^verbatim>\<open>CSSRuleList\<close>, \<^verbatim>\<open>MediaList\<close> and \<^verbatim>\<open>CSSStyleSheet\<close>
  are declared outside \<^verbatim>\<open>Helpers.cpp\<close>. A stylesheet has its rules, its media list,
  its location and its retained source text: the arguments of
  \<^verbatim>\<open>CSSStyleSheet::create\<close>, and the source text, which is \<open>None\<close> until
  \<^verbatim>\<open>set_source_text\<close> stores one. \<^verbatim>\<open>CSSRuleList::create(realm)\<close> makes a list with
  no rule and \<^verbatim>\<open>MediaList::create(realm, queries)\<close> a list of the given queries.
\<close>

record css_style_sheet =
  sheet_realm :: realm
  sheet_rules :: css_rule_list
  sheet_media :: media_list
  sheet_location :: "url option"
  sheet_source_text :: "string option"

definition CSSRuleList_create :: "realm \<Rightarrow> css_rule_list" where
  "CSSRuleList_create r = CSSRuleList r []"

definition MediaList_create :: "realm \<Rightarrow> media_query list \<Rightarrow> media_list" where
  "MediaList_create r queries = MediaList r queries"

definition CSSStyleSheet_create ::
  "realm \<Rightarrow> css_rule_list \<Rightarrow> media_list \<Rightarrow> url option \<Rightarrow> css_style_sheet" where
  "CSSStyleSheet_create r rule_list ml loc =
     \<lparr>sheet_realm = r, sheet_rules = rule_list, sheet_media = ml, sheet_location = loc,
       sheet_source_text = None\<rparr>"

definition set_source_text :: "css_style_sheet \<Rightarrow> string \<Rightarrow> css_style_sheet" where
  "set_source_text style_sheet s = style_sheet\<lparr>sheet_source_text := Some s\<rparr>"

fun rule_count :: "css_rule_list \<Rightarrow> nat" where
  "rule_count (CSSRuleList r rs) = length rs"

fun media_queries :: "media_list \<Rightarrow> media_query list" where
  "media_queries (MediaList r qs) = qs"

text \<open>
  Modelled from the spec: \<^verbatim>\<open>Parser::PropertiesAndCustomProperties\<close> is declared outside
  \<^verbatim>\<open>Helpers.cpp\<close>; the specification calls it an ordered list of declarations. The
  value \<^verbatim>\<open>{}\<close> is the one with no declaration.
\<close>

record properties_and_custom_properties =
  properties :: "style_property list"
  custom_properties :: "(string \<times> style_property) list"

definition no_properties :: properties_and_custom_properties where
  "no_properties = \<lparr>properties = [], custom_properties = []\<rparr>"

subsection \<open>The grammar engine\<close>

text \<open>
  \<^verbatim>\<open>Parser::create(context, text)\<close> builds a parser instance over a context and a text;
  the instance is that pair. What each \<^verbatim>\<open>parse_as_...\<close> method returns is the engine's
  business: the methods, the selector adaptation and the UTF-8 check of
  \<^verbatim>\<open>String::from_utf8\<close> are parameters of the model.
\<close>

datatype parser = Parser parsing_params string

record externals =
  utf8_valid :: "string \<Rightarrow> bool"
  parse_as_css_stylesheet :: "parser \<Rightarrow> url option \<Rightarrow> media_query list \<Rightarrow> css_style_sheet"
  parse_as_property_declaration_block :: "parser \<Rightarrow> properties_and_custom_properties"
  parse_as_descriptor_declaration_block :: "parser \<Rightarrow> at_rule_id \<Rightarrow> descriptor list"
  parse_as_css_value :: "parser \<Rightarrow> property_id \<Rightarrow> style_value option"
  parse_as_descriptor_value :: "parser \<Rightarrow> at_rule_id \<Rightarrow> descriptor_id \<Rightarrow> style_value option"
  parse_as_css_rule :: "parser \<Rightarrow> css_rule option"
  parse_as_selector :: "parser \<Rightarrow> selector_list option"
  parse_as_relative_selector :: "parser \<Rightarrow> selector_parsing_mode \<Rightarrow> selector_list option"
  parse_as_page_selector_list :: "parser \<Rightarrow> page_selector_list option"
  parse_as_pseudo_element_selector :: "parser \<Rightarrow> pseudo_element_selector option"
  parse_as_media_query :: "parser \<Rightarrow> media_query option"
  parse_as_media_query_list :: "parser \<Rightarrow> media_query list"
  parse_as_supports :: "parser \<Rightarrow> supports option"
  adapt_nested_relative_selector_list :: "selector_list \<Rightarrow> selector_list option"

subsection \<open>The world a call runs in\<close>

text \<open>
  A call observes and changes: the files on disk, the debug output, and the record of
  which parser instances were built and which selector lists were handed to the
  adaptation algorithm. File operations can fail; \<open>open_fault\<close> and \<open>write_fault\<close> say,
  for the n-th file operation of the run, whether it fails (a write that fails may have
  written a prefix of its bytes).
\<close>

datatype event =
    Parser_created parsing_params string
  | Adapted selector_list

record world =
  files :: "string \<rightharpoonup> string"
  clock :: nat
  open_fault :: "nat \<Rightarrow> bool"
  write_fault :: "nat \<Rightarrow> nat option"
  trace :: "event list"
  debug_output :: "string list"

datatype error = VerificationFailed | IOError

definition Parser_create :: "parsing_params \<Rightarrow> string \<Rightarrow> world \<Rightarrow> parser \<times> world" where
  "Parser_create context text w =
     (Parser context text, w\<lparr>trace := trace w @ [Parser_created context text]\<rparr>)"

definition call_adapt_nested_relative_selector_list ::
  "externals \<Rightarrow> selector_list \<Rightarrow> world \<Rightarrow> selector_list option \<times> world" where
  "call_adapt_nested_relative_selector_list ext selectors w =
     (adapt_nested_relative_selector_list ext selectors,
      w\<lparr>trace := trace w @ [Adapted selectors]\<rparr>)"

subsection \<open>Files\<close>

text \<open>
  Modelled from the spec: \<^verbatim>\<open>Core::File\<close> is declared outside \<^verbatim>\<open>Helpers.cpp\<close>.
  Opening for writing creates the file when it is absent; with the append flag the
  existing content is kept and every write goes to the end, without it the content is
  truncated. A handle is the name it was opened on. Each operation takes one tick of the
  clock and fails when the world's fault schedule says so at that tick; a failed open
  leaves the files as they are, a failed write may have written the first bytes.
\<close>

datatype open_mode = Write | Append

datatype core_file = File string

definition content :: "world \<Rightarrow> string \<Rightarrow> string" where
  "content w filename = (case files w filename of None \<Rightarrow> [] | Some bytes \<Rightarrow> bytes)"

definition File_open :: "string \<Rightarrow> open_mode list \<Rightarrow> world \<Rightarrow> (error + core_file) \<times> world" where
  "File_open filename mode w =
     (if open_fault w (clock w) then (Inl IOError, w\<lparr>clock := Suc (clock w)\<rparr>)
      else (Inr (File filename),
            w\<lparr>files := (files w)(filename \<mapsto> (if Append \<in> set mode then content w filename else [])),
              clock := Suc (clock w)\<rparr>))"

fun write_until_depleted :: "core_file \<Rightarrow> string \<Rightarrow> world \<Rightarrow> (error + unit) \<times> world" where
  "write_until_depleted (File filename) bytes w =
     (case write_fault w (clock w) of
        None \<Rightarrow>
          (Inr (),
           w\<lparr>files := (files w)(filename \<mapsto> content w filename @ bytes), clock := Suc (clock w)\<rparr>)
      | Some n \<Rightarrow>
          (Inl IOError,
           w\<lparr>files := (files w)(filename \<mapsto> content w filename @ take n bytes),
             clock := Suc (clock w)\<rparr>))"

definition dbgln :: "string \<Rightarrow> world \<Rightarrow> world" where
  "dbgln line w = w\<lparr>debug_output := debug_output w @ [line]\<rparr>"

subsection \<open>The diagnostic logger\<close>

definition LF :: char where
  "LF = CHR 0x0A"

text \<open>Lines 63 to 70 of \<^verbatim>\<open>write_css_to_file\<close>: the name of the log file.\<close>

definition log_filename :: "url option \<Rightarrow> string" where
  "log_filename location =
     (case location of
        Some u \<Rightarrow> sanitize_filename (to_string u) @ ''.csslog''
      | None \<Rightarrow> ''inline.csslog'')"

text \<open>Line 78: the header written before the CSS.\<close>

definition log_header :: "string \<Rightarrow> string" where
  "log_header source_description =
     ''/* CSS from: '' @ source_description @ '' */'' @ [LF]
       @ ''/* ==================== */'' @ [LF, LF]"

text \<open>
  \<^verbatim>\<open>write_css_to_file\<close> (lines 61 to 89). The three results of
  \<^verbatim>\<open>write_until_depleted\<close> are cast to void: whether a write failed is dropped and the
  next write is attempted all the same. \<^verbatim>\<open>String::formatted\<close> is concatenation; its
  \<^verbatim>\<open>MUST\<close> cannot fire on the strings it is given here (running out of memory is not
  modelled).
\<close>

definition write_css_to_file :: "string \<Rightarrow> string \<Rightarrow> url option \<Rightarrow> world \<Rightarrow> world" where
  "write_css_to_file css source_description location w =
     (let filename = log_filename location in
      case File_open filename [Write, Append] w of
        (Inl e, w1) \<Rightarrow> w1
      | (Inr file, w1) \<Rightarrow>
          (let w2 = snd (write_until_depleted file (log_header source_description) w1);
               w3 = snd (write_until_depleted file css w2);
               w4 = snd (write_until_depleted file [LF, LF] w3)
           in dbgln (''CSS logged to file: '' @ filename @ '' (source: ''
                       @ source_description @ '')'') w4))"

subsection \<open>The dispatcher\<close>

text \<open>
  Every entry point takes the world and returns its result with the world after the
  call. \<^verbatim>\<open>parse_css_stylesheet\<close> (lines 91 to 116) can also abort:
  \<^verbatim>\<open>MUST(String::from_utf8(css))\<close> stops the process when the text is not UTF-8, after
  the log was written and the parser has run.
\<close>

definition parse_css_stylesheet ::
  "externals \<Rightarrow> parsing_params \<Rightarrow> string \<Rightarrow> url option \<Rightarrow> media_query list \<Rightarrow> world
     \<Rightarrow> error + css_style_sheet \<times> world" where
  "parse_css_stylesheet ext context css location media_query_list w =
     (let w1 =
            (if css \<noteq> [] then
               (let source_description =
                      (case location of
                         Some u \<Rightarrow> ''External stylesheet: '' @ to_string u
                       | None \<Rightarrow> ''Inline CSS or style tag'')
                in write_css_to_file css source_description location w)
             else w)
      in if css = [] then
           (let rule_list = CSSRuleList_create (realm context);
                media_list = MediaList_create (realm context) [];
                style_sheet = CSSStyleSheet_create (realm context) rule_list media_list location
            in Inr (set_source_text style_sheet [], w1))
         else
           (let (parser, w2) = Parser_create context css w1;
                style_sheet = parse_as_css_stylesheet ext parser location media_query_list
            in if utf8_valid ext css then Inr (set_source_text style_sheet css, w2)
               else Inl VerificationFailed))"

definition parse_css_property_declaration_block ::
  "externals \<Rightarrow> parsing_params \<Rightarrow> string \<Rightarrow> world
     \<Rightarrow> properties_and_custom_properties \<times> world" where
  "parse_css_property_declaration_block ext context css w =
     (if css = [] then (no_properties, w)
      else (let (parser, w1) = Parser_create context css w
            in (parse_as_property_declaration_block ext parser, w1)))"

definition parse_css_descriptor_declaration_block ::
  "externals \<Rightarrow> parsing_params \<Rightarrow> at_rule_id \<Rightarrow> string \<Rightarrow> world \<Rightarrow> descriptor list \<times> world" where
  "parse_css_descriptor_declaration_block ext parsing_params at_rule_id css w =
     (if css = [] then ([], w)
      else (let (parser, w1) = Parser_create parsing_params css w
            in (parse_as_descriptor_declaration_block ext parser at_rule_id, w1)))"

definition parse_css_value ::
  "externals \<Rightarrow> parsing_params \<Rightarrow> string \<Rightarrow> property_id \<Rightarrow> world \<Rightarrow> style_value option \<times> world" where
  "parse_css_value ext context string property_id w =
     (if string = [] then (None, w)
      else (let (parser, w1) = Parser_create context string w
            in (parse_as_css_value ext parser property_id, w1)))"

definition parse_css_descriptor ::
  "externals \<Rightarrow> parsing_params \<Rightarrow> at_rule_id \<Rightarrow> descriptor_id \<Rightarrow> string \<Rightarrow> world
     \<Rightarrow> style_value option \<times> world" where
  "parse_css_descriptor ext parsing_params at_rule_id descriptor_id string w =
     (if string = [] then (None, w)
      else (let (parser, w1) = Parser_create parsing_params string w
            in (parse_as_descriptor_value ext parser at_rule_id descriptor_id, w1)))"

definition parse_css_rule ::
  "externals \<Rightarrow> parsing_params \<Rightarrow> string \<Rightarrow> world \<Rightarrow> css_rule option \<times> world" where
  "parse_css_rule ext context css_text w =
     (let (parser, w1) = Parser_create context css_text w
      in (parse_as_css_rule ext parser, w1))"

definition parse_selector ::
  "externals \<Rightarrow> parsing_params \<Rightarrow> string \<Rightarrow> world \<Rightarrow> selector_list option \<times> world" where
  "parse_selector ext context selector_text w =
     (let (parser, w1) = Parser_create context selector_text w
      in (parse_as_selector ext parser, w1))"

definition parse_selector_for_nested_style_rule ::
  "externals \<Rightarrow> parsing_params \<Rightarrow> string \<Rightarrow> world \<Rightarrow> selector_list option \<times> world" where
  "parse_selector_for_nested_style_rule ext context selector_text w =
     (let (parser, w1) = Parser_create context selector_text w;
          maybe_selectors = parse_as_relative_selector ext parser Standard
      in case maybe_selectors of
           None \<Rightarrow> (None, w1)
         | Some selectors \<Rightarrow> call_adapt_nested_relative_selector_list ext selectors w1)"

definition parse_page_selector_list ::
  "externals \<Rightarrow> parsing_params \<Rightarrow> string \<Rightarrow> world \<Rightarrow> page_selector_list option \<times> world" where
  "parse_page_selector_list ext params selector_text w =
     (let (parser, w1) = Parser_create params selector_text w
      in (parse_as_page_selector_list ext parser, w1))"

definition parse_pseudo_element_selector ::
  "externals \<Rightarrow> parsing_params \<Rightarrow> string \<Rightarrow> world \<Rightarrow> pseudo_element_selector option \<times> world" where
  "parse_pseudo_element_selector ext context selector_text w =
     (let (parser, w1) = Parser_create context selector_text w
      in (parse_as_pseudo_element_selector ext parser, w1))"

definition parse_media_query ::
  "externals \<Rightarrow> parsing_params \<Rightarrow> string \<Rightarrow> world \<Rightarrow> media_query option \<times> world" where
  "parse_media_query ext context string w =
     (let (parser, w1) = Parser_create context string w
      in (parse_as_media_query ext parser, w1))"

definition parse_media_query_list ::
  "externals \<Rightarrow> parsing_params \<Rightarrow> string \<Rightarrow> world \<Rightarrow> media_query list \<times> world" where
  "parse_media_query_list ext context string w =
     (let (parser, w1) = Parser_create context string w
      in (parse_as_media_query_list ext parser, w1))"

definition parse_css_supports ::
  "externals \<Rightarrow> parsing_params \<Rightarrow> string \<Rightarrow> world \<Rightarrow> supports option \<times> world" where
  "parse_css_supports ext context string w =
     (if string = [] then (None, w)
      else (let (parser, w1) = Parser_create context string w
            in (parse_as_supports ext parser, w1)))"

text \<open>What a call of \<^verbatim>\<open>parse_css_stylesheet\<close> hands back to its caller.\<close>

definition returned :: "error + css_style_sheet \<times> world \<Rightarrow> error + css_style_sheet" where
  "returned outcome = (case outcome of Inl e \<Rightarrow> Inl e | Inr (style_sheet, w) \<Rightarrow> Inr style_sheet)"

subsection \<open>Observations on a world\<close>

text \<open>The selector lists handed to the adaptation algorithm, in call order.\<close>

fun adaptations :: "event list \<Rightarrow> selector_list list" where
  "adaptations [] = []"
| "adaptations (Parser_created context text # events) = adaptations events"
| "adaptations (Adapted selectors # events) = selectors # adaptations events"

text \<open>The parser instances built, in call order.\<close>

fun parsers_created :: "event list \<Rightarrow> parser list" where
  "parsers_created [] = []"
| "parsers_created (Parser_created context text # events) =
     Parser context text # parsers_created events"
| "parsers_created (Adapted selectors # events) = parsers_created events"

text \<open>
  One record of the log: what lines 78 to 85 write when nothing fails, the header, the
  CSS and the separator.
\<close>

definition log_record :: "string \<Rightarrow> string \<Rightarrow> string" where
  "log_record source_description css = log_header source_description @ css @ [LF, LF]"

text \<open>None of the next \<open>n\<close> file operations fails.\<close>

definition healthy :: "world \<Rightarrow> nat \<Rightarrow> bool" where
  "healthy w n = (\<forall>k < n. \<not> open_fault w (clock w + k) \<and> write_fault w (clock w + k) = None)"

subsection \<open>The shared realm\<close>

text \<open>
  \<^verbatim>\<open>internal_css_realm\<close> (lines 23 to 45) keeps three function-local statics, null
  when the process starts. The process state holds them, the number of realms the virtual
  machine has created so far (a new realm is identified by it) and the host-defined slot
  of each realm.
\<close>

datatype window = Window realm
datatype execution_context = ExecutionContext realm
datatype intrinsics = Intrinsics realm
datatype host_defined = HostDefined intrinsics

record process =
  static_realm :: "realm option"
  static_window :: "window option"
  static_execution_context :: "execution_context option"
  realms_created :: nat
  host_defined_slot :: "realm \<rightharpoonup> host_defined"

text \<open>
  Modelled from the spec: \<^verbatim>\<open>Bindings::create_a_new_javascript_realm\<close> is declared
  outside \<^verbatim>\<open>Helpers.cpp\<close>. It makes a new realm, asks the first callback for the realm's global
  object and the second for its \<^verbatim>\<open>this\<close> value, and returns the execution context of
  the new realm.
\<close>

definition create_a_new_javascript_realm ::
  "(realm \<Rightarrow> process \<Rightarrow> window option \<times> process) \<Rightarrow> (realm \<Rightarrow> process \<Rightarrow> window option \<times> process)
     \<Rightarrow> process \<Rightarrow> execution_context \<times> process" where
  "create_a_new_javascript_realm create_global_object create_global_this_value p =
     (let new_realm = Realm (realms_created p);
          p1 = p\<lparr>realms_created := Suc (realms_created p)\<rparr>;
          (global_object, p2) = create_global_object new_realm p1;
          (this_value, p3) = create_global_this_value new_realm p2
      in (ExecutionContext new_realm, p3))"

fun execution_context_realm :: "execution_context \<Rightarrow> realm" where
  "execution_context_realm (ExecutionContext r) = r"

text \<open>Lines 29 to 42, the body of \<^verbatim>\<open>if (!realm)\<close>.\<close>

definition initialize_realm :: "process \<Rightarrow> process" where
  "initialize_realm p =
     (let (execution_context, p1) =
            create_a_new_javascript_realm
              (\<lambda>r q. (Some (Window r), q\<lparr>static_window := Some (Window r)\<rparr>))
              (\<lambda>r q. (static_window q, q))
              p;
          p2 = p1\<lparr>static_execution_context := Some execution_context\<rparr>;
          p3 = p2\<lparr>static_realm := Some (execution_context_realm execution_context)\<rparr>;
          new_realm = execution_context_realm execution_context;
          intrinsics = Intrinsics new_realm;
          host = HostDefined intrinsics
      in p3\<lparr>host_defined_slot := (host_defined_slot p3)(new_realm \<mapsto> host)\<rparr>)"

text \<open>Line 44, \<^verbatim>\<open>return *realm\<close>: dereferencing a null root would stop the process.\<close>

definition dereference :: "realm option \<Rightarrow> error + realm" where
  "dereference root = (case root of None \<Rightarrow> Inl VerificationFailed | Some r \<Rightarrow> Inr r)"

definition internal_css_realm :: "process \<Rightarrow> (error + realm) \<times> process" where
  "internal_css_realm p =
     (let p1 = (if static_realm p = None then initialize_realm p else p)
      in (dereference (static_realm p1), p1))"

text \<open>
  A sequence of calls in one process, each call running to its end before the next one
  starts. After each call other code of the process runs: \<open>other\<close> is what it does to
  the process state. The statics are local to \<^verbatim>\<open>internal_css_realm\<close>, so other code
  leaves them as they are.
\<close>

definition keeps_statics :: "(process \<Rightarrow> process) \<Rightarrow> bool" where
  "keeps_statics other =
     (\<forall>p. static_realm (other p) = static_realm p
          \<and> static_window (other p) = static_window p
          \<and> static_execution_context (other p) = static_execution_context p)"

fun internal_css_realm_calls ::
  "(process \<Rightarrow> process) list \<Rightarrow> process \<Rightarrow> (error + realm) list \<times> process" where
  "internal_css_realm_calls [] p = ([], p)"
| "internal_css_realm_calls (other # others) p =
     (let (handle, p1) = internal_css_realm p;
          (handles, p2) = internal_css_realm_calls others (other p1)
      in (handle # handles, p2))"

definition process_start :: process where
  "process_start =
     \<lparr>static_realm = None, static_window = None, static_execution_context = None,
      realms_created = 0, host_defined_slot = Map.empty\<rparr>"

text \<open>Other code that creates a realm of its own.\<close>

definition makes_a_realm :: "process \<Rightarrow> process" where
  "makes_a_realm p = p\<lparr>realms_created := Suc (realms_created p)\<rparr>"

subsection \<open>Calls that overlap\<close>

text \<open>
  The function has three points where a thread of control can be while another one runs:
  before the test of line 28, before the body of the \<^verbatim>\<open>if\<close>, and before the
  \<^verbatim>\<open>return\<close>. A thread does one of these at a time (the body in one piece); a
  schedule names the thread that moves next. The source has no lock and no atomic
  operation, so every schedule is possible.
\<close>

datatype program_point = At_check | At_initialize | At_return | Finished "error + realm"

fun thread_step :: "program_point \<Rightarrow> process \<Rightarrow> program_point \<times> process" where
  "thread_step At_check p = (if static_realm p = None then At_initialize else At_return, p)"
| "thread_step At_initialize p = (At_return, initialize_realm p)"
| "thread_step At_return p = (Finished (dereference (static_realm p)), p)"
| "thread_step (Finished handle) p = (Finished handle, p)"

fun run :: "nat list \<Rightarrow> (nat \<Rightarrow> program_point) \<times> process \<Rightarrow> (nat \<Rightarrow> program_point) \<times> process" where
  "run [] state = state"
| "run (t # schedule) (points, p) =
     (let (point, p1) = thread_step (points t) p
      in run schedule (points(t := point), p1))"

text \<open>The schedule in which the threads \<open>ts\<close> call one after the other.\<close>

fun one_after_the_other :: "nat list \<Rightarrow> nat list" where
  "one_after_the_other [] = []"
| "one_after_the_other (t # ts) = t # t # t # one_after_the_other ts"

subsection \<open>Concrete collaborators for the examples\<close>

text \<open>
  An engine that finds nothing in any text, an adaptation that keeps the list, and a
  check that takes the bytes below 0x80 for UTF-8; a world with no file and no fault,
  and one where no file can be opened.
\<close>

definition empty_sheet :: css_style_sheet where
  "empty_sheet =
     CSSStyleSheet_create (Realm 0) (CSSRuleList_create (Realm 0))
       (MediaList_create (Realm 0) []) None"

definition stub_externals :: externals where
  "stub_externals =
     \<lparr>utf8_valid = (\<lambda>bytes. list_all (\<lambda>c. of_char c < (128::nat)) bytes),
      parse_as_css_stylesheet = (\<lambda>parser loc queries. empty_sheet),
      parse_as_property_declaration_block = (\<lambda>parser. no_properties),
      parse_as_descriptor_declaration_block = (\<lambda>parser at_rule. []),
      parse_as_css_value = (\<lambda>parser property. None),
      parse_as_descriptor_value = (\<lambda>parser at_rule descr. None),
      parse_as_css_rule = (\<lambda>parser. None),
      parse_as_selector = (\<lambda>parser. None),
      parse_as_relative_selector = (\<lambda>parser mode. None),
      parse_as_page_selector_list = (\<lambda>parser. None),
      parse_as_pseudo_element_selector = (\<lambda>parser. None),
      parse_as_media_query = (\<lambda>parser. None),
      parse_as_media_query_list = (\<lambda>parser. []),
      parse_as_supports = (\<lambda>parser. None),
      adapt_nested_relative_selector_list = (\<lambda>selectors. Some selectors)\<rparr>"

definition some_params :: parsing_params where
  "some_params = \<lparr>realm = Realm 0, params_rest = 0\<rparr>"

definition fresh_world :: world where
  "fresh_world =
     \<lparr>files = Map.empty, clock = 0, open_fault = (\<lambda>n. False), write_fault = (\<lambda>n. None),
      trace = [], debug_output = []\<rparr>"

definition readonly_world :: world where
  "readonly_world = fresh_world\<lparr>open_fault := (\<lambda>n. True)\<rparr>"

section \<open>Properties\<close>

subsection \<open>Filename sanitization\<close>

text \<open>
  C4 (as the code has it). The scheme separator of a location is sanitized like every
  other character: the colon and the two slashes of \<^verbatim>\<open>http://\<close> become underscores too,
  so \<^verbatim>\<open>http://a/b:c?d\<close> is sanitized to \<^verbatim>\<open>http___a_b_c_d\<close>.
\<close>

theorem sanitize_filename_example:
  "sanitize_filename ''http://a/b:c?d'' = ''http___a_b_c_d''"
  by simp

text \<open>
  C4 (as the specification states it) fails: the result is not \<^verbatim>\<open>http://a_b_c_d\<close>.
\<close>

theorem sanitize_filename_keeps_no_scheme_separator:
  "sanitize_filename ''http://a/b:c?d'' \<noteq> ''http://a_b_c_d''"
  by simp

subsection \<open>Stylesheet mode\<close>

text \<open>
  C2. For every context and every optional location, parsing the empty text in
  stylesheet mode returns a stylesheet with zero rules, an empty media list and the empty
  string as retained source text. (The world is the one the call started in: nothing was
  logged and no parser was built.)
\<close>

theorem parse_css_stylesheet_empty:
  "\<exists>style_sheet.
     parse_css_stylesheet ext context [] location media_query_list w = Inr (style_sheet, w)
     \<and> rule_count (sheet_rules style_sheet) = 0
     \<and> media_queries (sheet_media style_sheet) = []
     \<and> sheet_source_text style_sheet = Some []"
  by (simp add: parse_css_stylesheet_def CSSStyleSheet_create_def CSSRuleList_create_def
      MediaList_create_def set_source_text_def)

text \<open>
  C10. The stylesheet returned for the empty text carries the location the caller
  passed, present or absent.
\<close>

theorem parse_css_stylesheet_empty_location:
  "\<exists>style_sheet w'.
     parse_css_stylesheet ext context [] location media_query_list w = Inr (style_sheet, w')
     \<and> sheet_location style_sheet = location"
  by (simp add: parse_css_stylesheet_def CSSStyleSheet_create_def set_source_text_def)

text \<open>
  C3. For every non-empty text, the stylesheet the call returns retains exactly the
  bytes of the text. The call returns a stylesheet whenever the text is UTF-8; on any
  other text it aborts at \<^verbatim>\<open>MUST(String::from_utf8(css))\<close> and returns nothing.
\<close>

theorem parse_css_stylesheet_source_text:
  assumes "css \<noteq> []"
  shows "if utf8_valid ext css
         then \<exists>style_sheet w'.
                parse_css_stylesheet ext context css location media_query_list w
                  = Inr (style_sheet, w')
                \<and> sheet_source_text style_sheet = Some css
         else parse_css_stylesheet ext context css location media_query_list w
                = Inl VerificationFailed"
  using assms
  by (simp add: parse_css_stylesheet_def Parser_create_def set_source_text_def Let_def)

theorem parse_css_stylesheet_source_text_witness:
  "''a{}'' \<noteq> [] \<and>
   (\<exists>style_sheet w'.
      parse_css_stylesheet stub_externals some_params ''a{}'' None [] fresh_world
        = Inr (style_sheet, w')
      \<and> sheet_source_text style_sheet = Some ''a{}'')"
  using parse_css_stylesheet_source_text
    [of "''a{}''" stub_externals some_params None "[]" fresh_world]
  by (simp add: stub_externals_def)

text \<open>
  C6. What \<^verbatim>\<open>parse_css_stylesheet\<close> hands back does not depend on the world it runs
  in: the same arguments give the same outcome whatever the files hold and whichever file
  operations fail, so a run whose logging fails returns what a run whose logging succeeds
  returns.
\<close>

theorem logging_never_alters_result:
  "returned (parse_css_stylesheet ext context css location media_query_list w1)
     = returned (parse_css_stylesheet ext context css location media_query_list w2)"
  by (simp add: parse_css_stylesheet_def Parser_create_def returned_def Let_def)

text \<open>
  The two kinds of run exist: where no file can be opened the call leaves no log behind,
  and where nothing fails it leaves one record.
\<close>

lemma logging_fails_in_readonly_world:
  "map_sum id (\<lambda>(style_sheet, w). files w ''inline.csslog'')
     (parse_css_stylesheet stub_externals some_params ''a{}'' None [] readonly_world)
     = Inr None"
  by (simp add: parse_css_stylesheet_def write_css_to_file_def File_open_def log_filename_def
      Parser_create_def stub_externals_def readonly_world_def fresh_world_def)

lemma logging_succeeds_in_fresh_world:
  "map_sum id (\<lambda>(style_sheet, w). files w ''inline.csslog'')
     (parse_css_stylesheet stub_externals some_params ''a{}'' None [] fresh_world)
     = Inr (Some (log_record ''Inline CSS or style tag'' ''a{}''))"
  by (simp add: parse_css_stylesheet_def write_css_to_file_def File_open_def log_filename_def
      Parser_create_def stub_externals_def fresh_world_def content_def dbgln_def log_record_def)

subsection \<open>Empty text, mode by mode\<close>

lemma adaptations_append: "adaptations (xs @ ys) = adaptations xs @ adaptations ys"
  by (induction xs rule: adaptations.induct) simp_all

lemma parsers_created_append:
  "parsers_created (xs @ ys) = parsers_created xs @ parsers_created ys"
  by (induction xs rule: parsers_created.induct) simp_all

text \<open>
  C1 (as the specification states it) fails: \<^verbatim>\<open>parse_css_rule\<close> has no test for the
  empty text and builds a parser over it.
\<close>

theorem parse_css_rule_builds_parser_for_empty_text:
  "parsers_created (trace (snd (parse_css_rule stub_externals some_params [] fresh_world)))
     = [Parser some_params []]"
  by (simp add: parse_css_rule_def Parser_create_def fresh_world_def)

text \<open>
  C1 (as the code has it). On the empty text, the stylesheet, property-declaration-block,
  descriptor-declaration-block, value, descriptor-value and supports modes return their
  canonical empty result and leave the world as it is, so no parser is built. The rule,
  selector-list, page-selector-list, pseudo-element-selector, media-query and
  media-query-list modes build one parser over the empty text and return what the engine
  returns for it; the nested-selector mode builds one parser over it as well.
\<close>

theorem empty_text_by_mode:
  "parse_css_stylesheet ext context [] location media_query_list w
     = Inr (set_source_text
              (CSSStyleSheet_create (realm context) (CSSRuleList_create (realm context))
                 (MediaList_create (realm context) []) location) [], w)
   \<and> parse_css_property_declaration_block ext context [] w = (no_properties, w)
   \<and> parse_css_descriptor_declaration_block ext context at_rule_id [] w = ([], w)
   \<and> parse_css_value ext context [] property_id w = (None, w)
   \<and> parse_css_descriptor ext context at_rule_id descriptor_id [] w = (None, w)
   \<and> parse_css_supports ext context [] w = (None, w)
   \<and> parse_css_rule ext context [] w
        = (parse_as_css_rule ext (Parser context []),
           w\<lparr>trace := trace w @ [Parser_created context []]\<rparr>)
   \<and> parse_selector ext context [] w
        = (parse_as_selector ext (Parser context []),
           w\<lparr>trace := trace w @ [Parser_created context []]\<rparr>)
   \<and> parse_page_selector_list ext context [] w
        = (parse_as_page_selector_list ext (Parser context []),
           w\<lparr>trace := trace w @ [Parser_created context []]\<rparr>)
   \<and> parse_pseudo_element_selector ext context [] w
        = (parse_as_pseudo_element_selector ext (Parser context []),
           w\<lparr>trace := trace w @ [Parser_created context []]\<rparr>)
   \<and> parse_media_query ext context [] w
        = (parse_as_media_query ext (Parser context []),
           w\<lparr>trace := trace w @ [Parser_created context []]\<rparr>)
   \<and> parse_media_query_list ext context [] w
        = (parse_as_media_query_list ext (Parser context []),
           w\<lparr>trace := trace w @ [Parser_created context []]\<rparr>)
   \<and> parsers_created (trace (snd (parse_selector_for_nested_style_rule ext context [] w)))
        = parsers_created (trace w) @ [Parser context []]"
proof -
  have guarded:
    "parse_css_stylesheet ext context [] location media_query_list w
       = Inr (set_source_text
                (CSSStyleSheet_create (realm context) (CSSRuleList_create (realm context))
                   (MediaList_create (realm context) []) location) [], w)"
    "parse_css_property_declaration_block ext context [] w = (no_properties, w)"
    "parse_css_descriptor_declaration_block ext context at_rule_id [] w = ([], w)"
    "parse_css_value ext context [] property_id w = (None, w)"
    "parse_css_descriptor ext context at_rule_id descriptor_id [] w = (None, w)"
    "parse_css_supports ext context [] w = (None, w)"
    by (simp_all add: parse_css_stylesheet_def parse_css_property_declaration_block_def
        parse_css_descriptor_declaration_block_def parse_css_value_def parse_css_descriptor_def
        parse_css_supports_def)
  have unguarded:
    "parse_css_rule ext context [] w
       = (parse_as_css_rule ext (Parser context []),
          w\<lparr>trace := trace w @ [Parser_created context []]\<rparr>)"
    "parse_selector ext context [] w
       = (parse_as_selector ext (Parser context []),
          w\<lparr>trace := trace w @ [Parser_created context []]\<rparr>)"
    "parse_page_selector_list ext context [] w
       = (parse_as_page_selector_list ext (Parser context []),
          w\<lparr>trace := trace w @ [Parser_created context []]\<rparr>)"
    "parse_pseudo_element_selector ext context [] w
       = (parse_as_pseudo_element_selector ext (Parser context []),
          w\<lparr>trace := trace w @ [Parser_created context []]\<rparr>)"
    "parse_media_query ext context [] w
       = (parse_as_media_query ext (Parser context []),
          w\<lparr>trace := trace w @ [Parser_created context []]\<rparr>)"
    "parse_media_query_list ext context [] w
       = (parse_as_media_query_list ext (Parser context []),
          w\<lparr>trace := trace w @ [Parser_created context []]\<rparr>)"
    by (simp_all add: parse_css_rule_def parse_selector_def parse_page_selector_list_def
        parse_pseudo_element_selector_def parse_media_query_def parse_media_query_list_def
        Parser_create_def)
  have nested:
    "parsers_created (trace (snd (parse_selector_for_nested_style_rule ext context [] w)))
       = parsers_created (trace w) @ [Parser context []]"
    by (cases "parse_as_relative_selector ext (Parser context []) Standard")
       (simp_all add: parse_selector_for_nested_style_rule_def Parser_create_def
          call_adapt_nested_relative_selector_list_def parsers_created_append)
  from guarded unguarded nested show ?thesis by simp
qed

subsection \<open>The nested-selector entry point\<close>

text \<open>
  C5. Whenever the relative-selector parse yields no value, the nested-selector entry
  point returns no value and the adaptation algorithm is not called: the selector lists
  handed to it are the ones handed to it before the call.
\<close>

theorem nested_absence_skips_adaptation:
  assumes "parse_as_relative_selector ext (Parser context selector_text) Standard = None"
  shows "fst (parse_selector_for_nested_style_rule ext context selector_text w) = None
       \<and> adaptations (trace (snd (parse_selector_for_nested_style_rule ext context selector_text w)))
           = adaptations (trace w)"
  using assms
  by (simp add: parse_selector_for_nested_style_rule_def Parser_create_def adaptations_append)

theorem nested_absence_skips_adaptation_witness:
  "parse_as_relative_selector stub_externals (Parser some_params ''> a'') Standard = None
   \<and> fst (parse_selector_for_nested_style_rule stub_externals some_params ''> a'' fresh_world)
       = None
   \<and> adaptations
       (trace (snd (parse_selector_for_nested_style_rule stub_externals some_params ''> a''
                      fresh_world))) = []"
  using nested_absence_skips_adaptation [of stub_externals some_params "''> a''" fresh_world]
  by (simp add: stub_externals_def fresh_world_def)

text \<open>The call is observable: when the parse yields a list, the adaptation receives it.\<close>

lemma nested_presence_calls_adaptation:
  assumes "parse_as_relative_selector ext (Parser context selector_text) Standard
             = Some selectors"
  shows "fst (parse_selector_for_nested_style_rule ext context selector_text w)
           = adapt_nested_relative_selector_list ext selectors
       \<and> adaptations (trace (snd (parse_selector_for_nested_style_rule ext context selector_text w)))
           = adaptations (trace w) @ [selectors]"
  using assms
  by (simp add: parse_selector_for_nested_style_rule_def Parser_create_def adaptations_append
      call_adapt_nested_relative_selector_list_def)

subsection \<open>The log is append-only\<close>

lemma File_open_append_only:
  "\<exists>more. content (snd (File_open filename [Write, Append] w)) f = content w f @ more"
  by (simp add: File_open_def content_def)

lemma write_until_depleted_append_only:
  "\<exists>more. content (snd (write_until_depleted handle bytes w)) f = content w f @ more"
  by (cases handle) (simp add: content_def split: option.splits)

lemma dbgln_content: "content (dbgln line w) f = content w f"
  by (simp add: dbgln_def content_def)

text \<open>Whatever fails, a call of the logger only adds bytes at the end of a file.\<close>

lemma write_css_to_file_append_only:
  "\<exists>more. content (write_css_to_file css source_description location w) f = content w f @ more"
proof -
  let ?name = "log_filename location"
  obtain result w1 where op: "File_open ?name [Write, Append] w = (result, w1)"
    by (cases "File_open ?name [Write, Append] w")
  obtain m1 where m1: "content w1 f = content w f @ m1"
    using File_open_append_only [of ?name w f] op by auto
  show ?thesis
  proof (cases result)
    case (Inl e)
    then show ?thesis using op m1 by (simp add: write_css_to_file_def)
  next
    case (Inr handle)
    let ?w2 = "snd (write_until_depleted handle (log_header source_description) w1)"
    let ?w3 = "snd (write_until_depleted handle css ?w2)"
    let ?w4 = "snd (write_until_depleted handle [LF, LF] ?w3)"
    obtain m2 where m2: "content ?w2 f = content w1 f @ m2"
      using write_until_depleted_append_only by blast
    obtain m3 where m3: "content ?w3 f = content ?w2 f @ m3"
      using write_until_depleted_append_only by blast
    obtain m4 where m4: "content ?w4 f = content ?w3 f @ m4"
      using write_until_depleted_append_only by blast
    have "content (write_css_to_file css source_description location w) f = content ?w4 f"
      using op Inr by (simp add: write_css_to_file_def Let_def dbgln_content)
    then show ?thesis using m1 m2 m3 m4 by simp
  qed
qed

text \<open>
  When the open and the three writes succeed, a call adds exactly one record to its file
  and uses up four file operations.
\<close>

lemma write_css_to_file_healthy:
  assumes "healthy w 4"
  shows "content (write_css_to_file css source_description location w) (log_filename location)
           = content w (log_filename location) @ log_record source_description css"
    and "clock (write_css_to_file css source_description location w) = clock w + 4"
    and "open_fault (write_css_to_file css source_description location w) = open_fault w"
    and "write_fault (write_css_to_file css source_description location w) = write_fault w"
proof -
  have h: "\<not> open_fault w (clock w)" "write_fault w (Suc (clock w)) = None"
    "write_fault w (Suc (Suc (clock w))) = None"
    "write_fault w (Suc (Suc (Suc (clock w)))) = None"
    using assms unfolding healthy_def
    by (auto dest: spec [of _ 0] spec [of _ 1] spec [of _ 2] spec [of _ 3] simp: numeral_eq_Suc)
  show "content (write_css_to_file css source_description location w) (log_filename location)
           = content w (log_filename location) @ log_record source_description css"
    using h
    by (simp add: write_css_to_file_def File_open_def Let_def dbgln_def content_def
        log_record_def)
  show "clock (write_css_to_file css source_description location w) = clock w + 4"
    using h by (simp add: write_css_to_file_def File_open_def Let_def dbgln_def content_def)
  show "open_fault (write_css_to_file css source_description location w) = open_fault w"
    using h by (simp add: write_css_to_file_def File_open_def Let_def dbgln_def content_def)
  show "write_fault (write_css_to_file css source_description location w) = write_fault w"
    using h by (simp add: write_css_to_file_def File_open_def Let_def dbgln_def content_def)
qed

lemma healthy_later:
  assumes "healthy w (a + b)" and "clock w' = clock w + a"
    and "open_fault w' = open_fault w" and "write_fault w' = write_fault w"
  shows "healthy w' b"
  unfolding healthy_def
proof (intro allI impI)
  fix k assume "k < b"
  then have "a + k < a + b" by simp
  with assms(1) have
    "\<not> open_fault w (clock w + (a + k)) \<and> write_fault w (clock w + (a + k)) = None"
    unfolding healthy_def by blast
  then show "\<not> open_fault w' (clock w' + k) \<and> write_fault w' (clock w' + k) = None"
    using assms(2-4) by (simp add: add.assoc)
qed

text \<open>
  C7 (as the specification states it) fails when the log cannot be written: after two
  calls of the logger for the file \<^verbatim>\<open>inline.csslog\<close> in a world where no file can be
  opened, there is no such file, let alone one with two records.
\<close>

theorem unopenable_log_holds_no_record:
  "log_filename None = ''inline.csslog''
   \<and> files (write_css_to_file ''b{}'' ''Inline CSS or style tag'' None
              (write_css_to_file ''a{}'' ''Inline CSS or style tag'' None readonly_world))
       ''inline.csslog'' = None"
  by (simp add: write_css_to_file_def File_open_def log_filename_def readonly_world_def
      fresh_world_def)

text \<open>
  C7 (as the code has it). For two successive calls of the logger that derive the same
  filename: when the two opens and the six writes succeed, the file holds what it held
  before, then the record of the first call, then the record of the second; and whether
  or not anything fails, what the file held before the two calls is still the beginning
  of what it holds after them (the file is opened for appending and never truncated).
\<close>

theorem log_records_are_appended:
  assumes same: "log_filename location1 = log_filename location2"
  shows "(healthy w 8 \<longrightarrow>
           content (write_css_to_file css2 description2 location2
                      (write_css_to_file css1 description1 location1 w)) (log_filename location1)
             = content w (log_filename location1) @ log_record description1 css1
                 @ log_record description2 css2)
       \<and> (\<exists>more. content (write_css_to_file css2 description2 location2
                      (write_css_to_file css1 description1 location1 w)) (log_filename location1)
             = content w (log_filename location1) @ more)"
proof (intro conjI impI)
  let ?w1 = "write_css_to_file css1 description1 location1 w"
  assume h: "healthy w 8"
  then have h1: "healthy w 4" by (simp add: healthy_def)
  have "healthy ?w1 4"
    using healthy_later [of w 4 4 ?w1] h
      write_css_to_file_healthy(2-4) [OF h1, of css1 description1 location1]
    by simp
  then show "content (write_css_to_file css2 description2 location2 ?w1) (log_filename location1)
             = content w (log_filename location1) @ log_record description1 css1
                 @ log_record description2 css2"
    using write_css_to_file_healthy(1) [of ?w1 css2 description2 location2]
      write_css_to_file_healthy(1) [OF h1, of css1 description1 location1] same
    by simp
next
  let ?w1 = "write_css_to_file css1 description1 location1 w"
  obtain m1 where
    "content ?w1 (log_filename location1) = content w (log_filename location1) @ m1"
    using write_css_to_file_append_only by blast
  moreover obtain m2 where
    "content (write_css_to_file css2 description2 location2 ?w1) (log_filename location1)
       = content ?w1 (log_filename location1) @ m2"
    using write_css_to_file_append_only by blast
  ultimately show
    "\<exists>more. content (write_css_to_file css2 description2 location2 ?w1) (log_filename location1)
             = content w (log_filename location1) @ more"
    by simp
qed

text \<open>
  Two locations that differ and derive the same filename, \<^verbatim>\<open>a_b.csslog\<close>, in a world
  where nothing fails.
\<close>

theorem log_records_are_appended_witness:
  "log_filename (Some (URL ''a/b'')) = log_filename (Some (URL ''a:b''))
   \<and> healthy fresh_world 8
   \<and> content (write_css_to_file ''q{}'' ''second'' (Some (URL ''a:b''))
                (write_css_to_file ''p{}'' ''first'' (Some (URL ''a/b'')) fresh_world))
       ''a_b.csslog''
       = log_record ''first'' ''p{}'' @ log_record ''second'' ''q{}''"
proof -
  have same: "log_filename (Some (URL ''a/b'')) = log_filename (Some (URL ''a:b''))"
    by (simp add: log_filename_def)
  have name: "log_filename (Some (URL ''a/b'')) = ''a_b.csslog''"
    by (simp add: log_filename_def)
  have h: "healthy fresh_world 8"
    by (simp add: healthy_def fresh_world_def)
  have "content fresh_world ''a_b.csslog'' = []"
    by (simp add: content_def fresh_world_def)
  then show ?thesis
    using log_records_are_appended [OF same, of fresh_world "''q{}''" "''second''" "''p{}''"
        "''first''"] same h
    unfolding name by simp
qed

subsection \<open>The shared realm\<close>

lemma initialize_realm_static:
  "static_realm (initialize_realm p) = Some (Realm (realms_created p))"
  by (simp add: initialize_realm_def create_a_new_javascript_realm_def Let_def)

lemma initialize_realm_count:
  "realms_created (initialize_realm p) = Suc (realms_created p)"
  by (simp add: initialize_realm_def create_a_new_javascript_realm_def Let_def)

text \<open>A call with the handle cached is a pure read.\<close>

lemma internal_css_realm_cached:
  "static_realm p = Some r \<Longrightarrow> internal_css_realm p = (Inr r, p)"
  by (simp add: internal_css_realm_def dereference_def)

lemma internal_css_realm_first:
  "static_realm p = None \<Longrightarrow>
     internal_css_realm p = (Inr (Realm (realms_created p)), initialize_realm p)"
  by (simp add: internal_css_realm_def dereference_def initialize_realm_static)

text \<open>Every call returns a handle (never the null dereference) and leaves it cached.\<close>

lemma internal_css_realm_caches:
  "\<exists>r. fst (internal_css_realm p) = Inr r \<and> static_realm (snd (internal_css_realm p)) = Some r"
  by (cases "static_realm p")
     (simp_all add: internal_css_realm_first internal_css_realm_cached initialize_realm_static)

lemma calls_cached:
  assumes "\<forall>other \<in> set others. keeps_statics other" and "static_realm p = Some r"
  shows "internal_css_realm_calls others p
           = (replicate (length others) (Inr r), fold (\<lambda>other q. other q) others p)"
  using assms
proof (induction others arbitrary: p)
  case Nil
  then show ?case by simp
next
  case (Cons other others)
  have k: "static_realm (other p) = Some r"
    using Cons.prems by (simp add: keeps_statics_def)
  have "\<forall>other \<in> set others. keeps_statics other" using Cons.prems by simp
  from Cons.IH [OF this k] show ?case
    using Cons.prems(2) by (simp add: internal_css_realm_cached)
qed

lemma fold_keeps_static_realm:
  assumes "\<forall>other \<in> set others. keeps_statics other"
  shows "static_realm (fold (\<lambda>other q. other q) others p) = static_realm p"
  using assms by (induction others arbitrary: p) (simp_all add: keeps_statics_def)

text \<open>
  C8 (as the specification states it) fails for calls that overlap: when two threads both
  pass the null test before either has stored a realm, the first gets the handle of one
  realm and the second the handle of another, and a call made after both gets the
  second. Three calls in one process, two identities.
\<close>

theorem overlapping_calls_return_two_handles:
  "fst (run [0, 1, 0, 0, 1, 1, 2, 2, 2] (\<lambda>t. At_check, process_start)) 0
     = Finished (Inr (Realm 0))
   \<and> fst (run [0, 1, 0, 0, 1, 1, 2, 2, 2] (\<lambda>t. At_check, process_start)) 1
     = Finished (Inr (Realm 1))
   \<and> fst (run [0, 1, 0, 0, 1, 1, 2, 2, 2] (\<lambda>t. At_check, process_start)) 2
     = Finished (Inr (Realm 1))"
  by (simp add: process_start_def initialize_realm_def create_a_new_javascript_realm_def
      dereference_def Let_def)

text \<open>
  C8 (as the code has it). In every sequence of calls made one after the other in one
  process (with any other code in between that leaves the function's statics alone), all
  calls return the handle the function has cached. When the cached handle is null at the
  first call, as it is when the process starts, that call constructs the realm, the next
  one the virtual machine creates, and every call returns it; when a handle is cached
  already, every call returns that one. In both cases the handle is the one cached after
  the sequence, and the process state after the sequence is what the one construction
  (if any) and the other code produce: every later call only read the cached handle.
\<close>

theorem shared_realm_identity:
  assumes "\<forall>other \<in> set (other # others). keeps_statics other"
  shows "internal_css_realm_calls (other # others) p
           = (case static_realm p of
                None \<Rightarrow>
                  (replicate (Suc (length others)) (Inr (Realm (realms_created p))),
                   fold (\<lambda>other q. other q) (other # others) (initialize_realm p))
              | Some cached \<Rightarrow>
                  (replicate (Suc (length others)) (Inr cached),
                   fold (\<lambda>other q. other q) (other # others) p))
       \<and> static_realm (snd (internal_css_realm_calls (other # others) p))
           = Some (case static_realm p of
                     None \<Rightarrow> Realm (realms_created p)
                   | Some cached \<Rightarrow> cached)
       \<and> static_realm (initialize_realm p) = Some (Realm (realms_created p))
       \<and> realms_created (initialize_realm p) = Suc (realms_created p)"
proof -
  have rest: "\<forall>other \<in> set others. keeps_statics other" using assms by simp
  have first: "keeps_statics other" using assms by simp
  have calls: "internal_css_realm_calls (other # others) p
           = (case static_realm p of
                None \<Rightarrow>
                  (replicate (Suc (length others)) (Inr (Realm (realms_created p))),
                   fold (\<lambda>other q. other q) (other # others) (initialize_realm p))
              | Some cached \<Rightarrow>
                  (replicate (Suc (length others)) (Inr cached),
                   fold (\<lambda>other q. other q) (other # others) p))"
  proof (cases "static_realm p")
    case None
    have "static_realm (other (initialize_realm p)) = Some (Realm (realms_created p))"
      using first by (simp add: keeps_statics_def initialize_realm_static)
    from calls_cached [OF rest this] show ?thesis
      using None by (simp add: internal_css_realm_first)
  next
    case (Some cached)
    have "static_realm (other p) = Some cached"
      using first Some by (simp add: keeps_statics_def)
    from calls_cached [OF rest this] show ?thesis
      using Some by (simp add: internal_css_realm_cached)
  qed
  have kept: "static_realm (snd (internal_css_realm_calls (other # others) p))
           = Some (case static_realm p of
                     None \<Rightarrow> Realm (realms_created p)
                   | Some cached \<Rightarrow> cached)"
    unfolding calls using fold_keeps_static_realm [OF assms]
    by (simp add: initialize_realm_static split: option.splits)
  from calls kept show ?thesis
    by (simp only: initialize_realm_static initialize_realm_count simp_thms)
qed

text \<open>
  Three calls in a process where other code has created two realms before the first
  call: the realm constructed is the third of the process, and all three calls return it.
\<close>

theorem shared_realm_identity_witness:
  "keeps_statics makes_a_realm \<and> keeps_statics (\<lambda>p. p)
   \<and> static_realm (makes_a_realm (makes_a_realm process_start)) = None
   \<and> internal_css_realm_calls [makes_a_realm, \<lambda>p. p, makes_a_realm]
        (makes_a_realm (makes_a_realm process_start))
       = ([Inr (Realm 2), Inr (Realm 2), Inr (Realm 2)],
          makes_a_realm (makes_a_realm
            (initialize_realm (makes_a_realm (makes_a_realm process_start)))))
   \<and> static_realm (snd (internal_css_realm_calls [makes_a_realm, \<lambda>p. p, makes_a_realm]
                          (makes_a_realm (makes_a_realm process_start))))
       = Some (Realm 2)"
proof -
  let ?p = "makes_a_realm (makes_a_realm process_start)"
  have k: "keeps_statics makes_a_realm" "keeps_statics (\<lambda>p. p)"
    by (simp_all add: keeps_statics_def makes_a_realm_def)
  then have all: "\<forall>other \<in> set (makes_a_realm # [\<lambda>p. p, makes_a_realm]). keeps_statics other"
    by simp
  have start: "static_realm ?p = None" "realms_created ?p = 2"
    by (simp_all add: makes_a_realm_def process_start_def)
  note fact = shared_realm_identity [OF all, of ?p]
  have calls: "internal_css_realm_calls [makes_a_realm, \<lambda>p. p, makes_a_realm] ?p
       = ([Inr (Realm 2), Inr (Realm 2), Inr (Realm 2)],
          makes_a_realm (makes_a_realm (initialize_realm ?p)))"
    using fact [THEN conjunct1] start by (simp del: internal_css_realm_calls.simps)
  have kept:
    "static_realm (snd (internal_css_realm_calls [makes_a_realm, \<lambda>p. p, makes_a_realm] ?p))
       = Some (Realm 2)"
    using fact [THEN conjunct2, THEN conjunct1] start
    by (simp del: internal_css_realm_calls.simps)
  from k start(1) calls kept show ?thesis by (intro conjI)
qed

subsection \<open>Calls that overlap\<close>

lemma run_append: "run (xs @ ys) state = run ys (run xs state)"
proof (induction xs arbitrary: state)
  case Nil
  then show ?case by simp
next
  case (Cons t xs)
  then show ?case by (cases state) (simp add: case_prod_beta)
qed

text \<open>A thread that runs its three steps with no other thread in between does one call.\<close>

lemma call_alone:
  assumes "points t = At_check"
  shows "run [t, t, t] (points, p)
           = (points(t := Finished (fst (internal_css_realm p))), snd (internal_css_realm p))"
  using assms by (cases "static_realm p") (simp_all add: internal_css_realm_def Let_def)

lemma calls_alone_cached:
  assumes "distinct ts" and "\<forall>t \<in> set ts. points t = At_check" and "static_realm p = Some r"
  shows "run (one_after_the_other ts) (points, p)
           = (\<lambda>t. if t \<in> set ts then Finished (Inr r) else points t, p)"
  using assms
proof (induction ts arbitrary: points)
  case Nil
  then show ?case by simp
next
  case (Cons t ts)
  have split: "one_after_the_other (t # ts) = [t, t, t] @ one_after_the_other ts" by simp
  have first: "run [t, t, t] (points, p) = (points(t := Finished (Inr r)), p)"
    using call_alone [of points t p] Cons.prems by (simp add: internal_css_realm_cached)
  have rest: "\<forall>u \<in> set ts. (points(t := Finished (Inr r))) u = At_check"
    using Cons.prems by auto
  have unique: "distinct ts" using Cons.prems by simp
  have "run (one_after_the_other (t # ts)) (points, p)
          = run (one_after_the_other ts) (points(t := Finished (Inr r)), p)"
    by (simp only: split run_append first)
  also have "\<dots> = (\<lambda>u. if u \<in> set ts then Finished (Inr r)
                      else (points(t := Finished (Inr r))) u, p)"
    by (rule Cons.IH [OF unique rest Cons.prems(3)])
  also have "\<dots> = (\<lambda>u. if u \<in> set (t # ts) then Finished (Inr r) else points u, p)"
    by (auto simp: fun_eq_iff)
  finally show ?case .
qed

text \<open>
  C9 (as the specification states it) fails: nothing but the null test guards the
  construction. When two threads both pass the test before either has stored a realm,
  each constructs one: two realms are created and the two callers get different handles.
\<close>

theorem overlapping_first_calls_construct_twice:
  "fst (run [0, 1, 0, 0, 1, 1] (\<lambda>t. At_check, process_start)) 0 = Finished (Inr (Realm 0))
   \<and> fst (run [0, 1, 0, 0, 1, 1] (\<lambda>t. At_check, process_start)) 1 = Finished (Inr (Realm 1))
   \<and> realms_created (snd (run [0, 1, 0, 0, 1, 1] (\<lambda>t. At_check, process_start))) = 2"
  by (simp add: process_start_def initialize_realm_def create_a_new_javascript_realm_def
      dereference_def Let_def)

text \<open>
  C9 (as the code has it). When the calls of the threads do not overlap, each thread
  running its call to the end before the next one starts, the realm is constructed at
  most once and all callers get the same handle. The function has no lock and no atomic
  operation; first calls that overlap are not covered.
\<close>

theorem calls_in_turn_construct_once:
  assumes "distinct ts" and "\<forall>t \<in> set ts. points t = At_check"
  shows "\<exists>r. (\<forall>t \<in> set ts. fst (run (one_after_the_other ts) (points, p)) t = Finished (Inr r))
            \<and> realms_created (snd (run (one_after_the_other ts) (points, p)))
                \<le> Suc (realms_created p)"
proof (cases ts)
  case Nil
  then show ?thesis by simp
next
  case (Cons t ts')
  obtain r where r: "fst (internal_css_realm p) = Inr r"
      "static_realm (snd (internal_css_realm p)) = Some r"
    using internal_css_realm_caches by blast
  let ?p1 = "snd (internal_css_realm p)"
  let ?points1 = "points(t := Finished (Inr r))"
  have split: "one_after_the_other (t # ts') = [t, t, t] @ one_after_the_other ts'" by simp
  have first: "run [t, t, t] (points, p) = (?points1, ?p1)"
    using call_alone [of points t p] assms(2) Cons r(1) by simp
  have rest: "\<forall>u \<in> set ts'. ?points1 u = At_check"
    using assms Cons by auto
  have "distinct ts'" using assms(1) Cons by simp
  from calls_alone_cached [OF this rest r(2)]
  have final: "run (one_after_the_other ts) (points, p)
                 = (\<lambda>u. if u \<in> set ts' then Finished (Inr r) else ?points1 u, ?p1)"
    unfolding Cons split run_append first .
  have "realms_created ?p1 \<le> Suc (realms_created p)"
    by (simp add: internal_css_realm_def initialize_realm_count Let_def)
  then show ?thesis using final Cons by auto
qed

theorem calls_in_turn_construct_once_witness:
  "distinct [0::nat, 1]
   \<and> fst (run (one_after_the_other [0, 1]) (\<lambda>t. At_check, process_start)) 0
       = Finished (Inr (Realm 0))
   \<and> fst (run (one_after_the_other [0, 1]) (\<lambda>t. At_check, process_start)) 1
       = Finished (Inr (Realm 0))
   \<and> realms_created (snd (run (one_after_the_other [0, 1]) (\<lambda>t. At_check, process_start))) = 1"
  using calls_in_turn_construct_once [of "[0, 1]" "\<lambda>t. At_check" process_start]
  by (simp add: process_start_def initialize_realm_def create_a_new_javascript_realm_def
      dereference_def Let_def)

end
